theory Spec2Isabelle
  imports Main "HOL-Library.Sublist"
begin

section \<open>Python values used by the pipeline\<close>

text \<open>
  Python strings are modelled as \<open>string\<close>. The characters that cannot be typed
  inside a literal are named: the line feed, the double quote and the single quote.
\<close>

definition nl :: char where
  "nl = CHR 0x0A"

definition dq :: char where
  "dq = CHR 0x22"

definition sq :: char where
  "sq = CHR 0x27"

text \<open>
  An exception is a value: its class name, whether the class derives from
  \<open>Exception\<close> (so that \<open>except Exception\<close> catches it; \<open>CancelledError\<close> and
  \<open>KeyboardInterrupt\<close> derive from \<open>BaseException\<close> only) and what \<open>str(err)\<close> gives.
\<close>

record py_exn =
  exn_class :: string
  exn_is_Exception :: bool
  exn_str :: string

text \<open>\<open>Exception(msg)\<close>: \<open>str\<close> of it is the message.\<close>

definition Exception :: "string \<Rightarrow> py_exn" where
  "Exception msg = \<lparr>exn_class = ''Exception'', exn_is_Exception = True, exn_str = msg\<rparr>"

text \<open>
  \<open>KeyError(k)\<close> for a key that is one of the source's literal keys: \<open>str\<close> of it is
  the key's \<open>repr\<close>, the key between single quotes.
\<close>

definition KeyError :: "string \<Rightarrow> py_exn" where
  "KeyError k = \<lparr>exn_class = ''KeyError'', exn_is_Exception = True,
     exn_str = [sq] @ k @ [sq]\<rparr>"

text \<open>\<open>d[k]\<close> on a dict with string keys.\<close>

definition subscript :: "(string \<rightharpoonup> 'v) \<Rightarrow> string \<Rightarrow> py_exn + 'v" where
  "subscript d k = (case d k of None \<Rightarrow> Inl (KeyError k) | Some v \<Rightarrow> Inr v)"

text \<open>
  The values a bounding-box record holds: a string (the base64 image), or coordinate
  data, which is an integer or a list of coordinate data. Floats and lists that hold
  strings are outside this model.
\<close>

datatype coord = CInt int | CList "coord list"

datatype pyval = PStr string | PData coord

text \<open>\<open>str(n)\<close> for an integer: decimal digits, with a minus sign when negative.\<close>

fun nat_digits :: "nat \<Rightarrow> string" where
  "nat_digits n =
     (if n < 10 then [''0123456789'' ! n]
      else nat_digits (n div 10) @ [''0123456789'' ! (n mod 10)])"

declare nat_digits.simps [simp del]

definition int_str :: "int \<Rightarrow> string" where
  "int_str i = (if i < 0 then CHR ''-'' # nat_digits (nat (- i)) else nat_digits (nat i))"

text \<open>\<open>sep.join(parts)\<close>.\<close>

fun join :: "string \<Rightarrow> string list \<Rightarrow> string" where
  "join sep [] = []"
| "join sep [x] = x"
| "join sep (x # y # ys) = x @ sep @ join sep (y # ys)"

text \<open>
  \<open>repr\<close> of coordinate data: a list is rendered between brackets with its elements
  separated by a comma and a space.
\<close>

fun coord_repr :: "coord \<Rightarrow> string" where
  "coord_repr (CInt i) = int_str i"
| "coord_repr (CList xs) = ''['' @ join '', '' (map coord_repr xs) @ '']''"

text \<open>
  What a replacement field \<open>{v}\<close> of an f-string inserts, \<open>format(v, '')\<close>: a string
  as it is, anything else through \<open>str\<close>.
\<close>

fun py_str :: "pyval \<Rightarrow> string" where
  "py_str (PStr s) = s"
| "py_str (PData c) = coord_repr c"

section \<open>processor/text.py\<close>

text \<open>
  Modelled from the spec: the regular expressions \<open>Patterns.MATCH_MARKDOWN_BLOCKS\<close> and
  \<open>Patterns.MATCH_CODE_BLOCKS\<close> (constants/patterns.py) are not among the sources. The
  spec describes each as matching a whole answer that is enclosed in one fenced block,
  the markdown one opened by a fence line tagged \<open>markdown\<close> and the generic one by a
  bare fence line, both closed by a fence on a last line of its own. A pattern is
  represented by its opening line, line feed included.
\<close>

definition MATCH_MARKDOWN_BLOCKS :: string where
  "MATCH_MARKDOWN_BLOCKS = ''```markdown'' @ [nl]"

definition MATCH_CODE_BLOCKS :: string where
  "MATCH_CODE_BLOCKS = ''```'' @ [nl]"

definition fence_close :: string where
  "fence_close = nl # ''```''"

text \<open>
  Modelled from the spec: the pattern matches when the text starts with the opening
  line and ends with the closing fence, the two not overlapping.
\<close>

definition enclosed :: "string \<Rightarrow> string \<Rightarrow> bool" where
  "enclosed opening text \<longleftrightarrow>
     length opening + length fence_close \<le> length text \<and>
     take (length opening) text = opening \<and>
     drop (length text - length fence_close) text = fence_close"

text \<open>
  Modelled from the spec: \<open>re.sub(pattern, r"\1", text)\<close> for such a pattern replaces the
  match, which is the whole text, by what stands between the opening line and the
  closing fence, and returns the text as it is when the pattern does not match.
\<close>

definition re_sub_group1 :: "string \<Rightarrow> string \<Rightarrow> string" where
  "re_sub_group1 opening text =
     (if enclosed opening text
      then take (length text - length opening - length fence_close) (drop (length opening) text)
      else text)"

text \<open>A list comprehension whose element expression may raise: the first failure ends it.\<close>

fun comprehension :: "('a \<Rightarrow> py_exn + 'b) \<Rightarrow> 'a list \<Rightarrow> py_exn + 'b list" where
  "comprehension f [] = Inr []"
| "comprehension f (x # xs) =
     (case f x of
        Inl e \<Rightarrow> Inl e
      | Inr y \<Rightarrow> (case comprehension f xs of Inl e \<Rightarrow> Inl e | Inr ys \<Rightarrow> Inr (y # ys)))"

type_synonym box = "string \<rightharpoonup> pyval"

text \<open>
  The f-string of line 16:
  \<^verbatim>\<open>f"![Image](data:image/png;base64,{box['image']})\n\nBounding Box: {box['bounding_box']}"\<close>
\<close>

definition box_markdown :: "box \<Rightarrow> py_exn + string" where
  "box_markdown box =
     (case subscript box ''image'' of
        Inl e \<Rightarrow> Inl e
      | Inr image_value \<Rightarrow>
          (case subscript box ''bounding_box'' of
             Inl e \<Rightarrow> Inl e
           | Inr bounding_box \<Rightarrow>
               Inr (''![Image](data:image/png;base64,'' @ py_str image_value @ '')'' @ [nl, nl]
                    @ ''Bounding Box: '' @ py_str bounding_box)))"

text \<open>
  \<open>format_markdown(text, bounding_boxes=None)\<close>. The test \<open>if bounding_boxes:\<close> is false
  for \<open>None\<close> and for the empty list.
\<close>

definition format_markdown :: "string \<Rightarrow> box list option \<Rightarrow> py_exn + string" where
  "format_markdown text bounding_boxes =
     (let formatted_markdown = re_sub_group1 MATCH_MARKDOWN_BLOCKS text;
          formatted_markdown = re_sub_group1 MATCH_CODE_BLOCKS formatted_markdown
      in case bounding_boxes of
           None \<Rightarrow> Inr formatted_markdown
         | Some [] \<Rightarrow> Inr formatted_markdown
         | Some (b # bs) \<Rightarrow>
             (case comprehension box_markdown (b # bs) of
                Inl e \<Rightarrow> Inl e
              | Inr blocks \<Rightarrow>
                  Inr (formatted_markdown @ [nl, nl] @ join [nl, nl] blocks)))"

section \<open>constants/prompts.py\<close>

definition DEFAULT_SYSTEM_PROMPT :: string where
  "DEFAULT_SYSTEM_PROMPT =
     [nl] @ ''    Convert the following PDF page to markdown.'' @ [nl]
     @ ''    Return only the markdown with no explanation text.'' @ [nl]
     @ ''    Do not exclude any content from the page.'' @ [nl]
     @ ''    ''"

definition BOUNDING_BOX_PROMPT :: string where
  "BOUNDING_BOX_PROMPT =
     [nl] @ ''    Convert the following PDF page to markdown.'' @ [nl]
     @ ''    Return only the markdown with no explanation text.'' @ [nl]
     @ ''    Do not exclude any content from the page.'' @ [nl]
     @ ''    Include the bounding box coordinates of any inline images.'' @ [nl]
     @ ''    ''"

section \<open>models/modellitellm.py\<close>

subsection \<open>What the module imports\<close>

text \<open>
  The constants of constants/messages.py are not among the sources: they are
  parameters of the model. \<open>CUSTOM_SYSTEM_PROMPT_WARNING\<close> is a string.
  \<open>COMPLETION_ERROR\<close> is used as \<open>COMPLETION_ERROR.format(err)\<close>, a template applied to
  one positional argument: it is given as its literal text and its replacement fields
  for that argument, in order.
\<close>

datatype fmt_piece = Lit string | Replacement

record Messages =
  CUSTOM_SYSTEM_PROMPT_WARNING :: string
  COMPLETION_ERROR :: "fmt_piece list"

text \<open>\<open>template.format(arg)\<close>, with \<open>arg\<close> already rendered by \<open>str\<close>.\<close>

fun str_format :: "fmt_piece list \<Rightarrow> string \<Rightarrow> string" where
  "str_format [] arg = []"
| "str_format (Lit t # ps) arg = t @ str_format ps arg"
| "str_format (Replacement # ps) arg = arg @ str_format ps arg"

text \<open>
  A message of the request is a dict with the keys \<open>role\<close> and \<open>content\<close>; the content is
  a text, or a list of parts, a part being
  \<^verbatim>\<open>{"type": "image_url", "image_url": {"url": u}}\<close>.
\<close>

datatype part = Image_url string

datatype message_content = Text string | Parts "part list"

record message =
  role :: string
  content :: message_content

text \<open>
  The provider's response, read by subscripting. A key that may be missing is an
  option; \<open>choices\<close> is a list, which may be empty.
\<close>

record response_message =
  message_content :: "string option"
  message_bounding_boxes :: "box list option"

record response_choice =
  choice_message :: "response_message option"

record response_usage =
  prompt_tokens :: "int option"
  completion_tokens :: "int option"

record provider_response =
  choices :: "response_choice list option"
  usage :: "response_usage option"

text \<open>\<open>CompletionResponse\<close> of models/types.py, as line 101 builds it.\<close>

record CompletionResponse =
  response_content :: string
  input_tokens :: int
  output_tokens :: int
  bounding_boxes :: "box list"

text \<open>
  The collaborators: \<open>encode_image_to_base64(image_path)\<close> of processor/image.py and
  \<open>litellm.acompletion(model, messages, **kwargs)\<close>. Each returns its value or raises.
\<close>

type_synonym encoder = "string \<Rightarrow> py_exn + string"

type_synonym transport =
  "string \<Rightarrow> message list \<Rightarrow> (string \<times> pyval) list \<Rightarrow> py_exn + provider_response"

subsection \<open>Objects and the state of the process\<close>

text \<open>
  An instance of \<open>litellmmodel\<close>: the attributes \<open>model\<close> and \<open>kwargs\<close> that the base class
  sets, and the instance's own \<open>_system_prompt\<close>, which does not exist until the setter
  has run.
\<close>

record litellmmodel =
  model :: string
  kwargs :: "(string \<times> pyval) list"
  own_system_prompt :: "string option"

text \<open>
  The module calls \<open>warnings.warn\<close> in one place, line 52, with a text and the default
  category \<open>UserWarning\<close>. What Python's \<open>warnings\<close> module does with that call depends on
  the action that the warning filters in force select for it; with no filter configured
  the action is \<open>default\<close>.
\<close>

datatype warn_action =
  Default_action | Error_action | Ignore_action | Always_action | Module_action | Once_action

text \<open>
  The state: the class attribute \<open>litellmmodel._system_prompt\<close> (line 20), the instances
  by identity, the state of the \<open>warnings\<close> module, and the requests handed to the
  transport. Of the \<open>warnings\<close> module it holds the action selected for the warning of
  line 52, the texts entered for that line in the module's \<open>__warningregistry__\<close>, the
  texts entered there for the module as a whole, the texts of the \<open>onceregistry\<close>, and the
  warnings that have been shown to the caller. The filters are those in force when the
  call is made; no operation of this module changes them.
\<close>

record py_state =
  class_system_prompt :: string
  heap :: "nat \<Rightarrow> litellmmodel"
  warnings_action :: warn_action
  warnings_registry :: "string list"
  warnings_module_registry :: "string list"
  warnings_onceregistry :: "string list"
  warnings_shown :: "string list"
  transport_calls :: "(string \<times> message list \<times> (string \<times> pyval) list) list"

text \<open>
  The state once the module is loaded and the given instances exist, in a process that
  has configured no warning filter and has shown no warning.
\<close>

definition module_loaded :: "(nat \<Rightarrow> litellmmodel) \<Rightarrow> py_state" where
  "module_loaded h =
     \<lparr>class_system_prompt = DEFAULT_SYSTEM_PROMPT, heap = h,
      warnings_action = Default_action, warnings_registry = [],
      warnings_module_registry = [], warnings_onceregistry = [], warnings_shown = [],
      transport_calls = []\<rparr>"

text \<open>
  \<open>self._system_prompt\<close>: the instance's own attribute when it has one, the class
  attribute otherwise.
\<close>

definition self_system_prompt :: "py_state \<Rightarrow> nat \<Rightarrow> string" where
  "self_system_prompt s self =
     (case own_system_prompt (heap s self) of
        Some p \<Rightarrow> p
      | None \<Rightarrow> class_system_prompt s)"

text \<open>The property \<open>system_prompt\<close> (line 42).\<close>

definition system_prompt :: "py_state \<Rightarrow> nat \<Rightarrow> string" where
  "system_prompt s self = self_system_prompt s self"

text \<open>\<open>UserWarning(text)\<close>, which derives from \<open>Exception\<close>.\<close>

definition UserWarning :: "string \<Rightarrow> py_exn" where
  "UserWarning msg = \<lparr>exn_class = ''UserWarning'', exn_is_Exception = True, exn_str = msg\<rparr>"

text \<open>The warning is shown to the caller.\<close>

definition showwarning :: "string \<Rightarrow> py_state \<Rightarrow> py_state" where
  "showwarning w s = s\<lparr>warnings_shown := warnings_shown s @ [w]\<rparr>"

text \<open>
  \<open>warnings.warn(text)\<close> called from line 52, following \<open>warn_explicit\<close> of Python's
  \<open>warnings\<close> module. A text already entered in the registry for this line returns at
  once. Otherwise the action decides: \<open>ignore\<close> returns, \<open>error\<close> raises the warning,
  \<open>always\<close> shows it, \<open>default\<close> enters the text for this line and shows it, \<open>module\<close> and
  \<open>once\<close> enter it for this line and show it unless it has been entered for the module,
  or in the \<open>onceregistry\<close>, before.
\<close>

definition warnings_warn :: "string \<Rightarrow> py_state \<Rightarrow> (py_exn + unit) \<times> py_state" where
  "warnings_warn w s =
     (if w \<in> set (warnings_registry s) then (Inr (), s)
      else case warnings_action s of
        Ignore_action \<Rightarrow> (Inr (), s)
      | Error_action \<Rightarrow> (Inl (UserWarning w), s)
      | Once_action \<Rightarrow>
          (let s1 = s\<lparr>warnings_registry := w # warnings_registry s\<rparr>
           in if w \<in> set (warnings_onceregistry s1) then (Inr (), s1)
              else (Inr (), showwarning w
                      (s1\<lparr>warnings_onceregistry := w # warnings_onceregistry s1\<rparr>)))
      | Always_action \<Rightarrow> (Inr (), showwarning w s)
      | Module_action \<Rightarrow>
          (let s1 = s\<lparr>warnings_registry := w # warnings_registry s\<rparr>
           in if w \<in> set (warnings_module_registry s1) then (Inr (), s1)
              else (Inr (), showwarning w
                      (s1\<lparr>warnings_module_registry := w # warnings_module_registry s1\<rparr>)))
      | Default_action \<Rightarrow>
          (Inr (), showwarning w (s\<lparr>warnings_registry := w # warnings_registry s\<rparr>)))"

text \<open>
  The text of the warning, the f-string of line 52:
  \<^verbatim>\<open>f"{Messages.CUSTOM_SYSTEM_PROMPT_WARNING}. Default prompt for zerox is:\n {DEFAULT_SYSTEM_PROMPT}"\<close>
\<close>

definition setter_warning :: "Messages \<Rightarrow> string" where
  "setter_warning M =
     CUSTOM_SYSTEM_PROMPT_WARNING M @ ''. Default prompt for zerox is:'' @ [nl] @ '' ''
     @ DEFAULT_SYSTEM_PROMPT"

text \<open>
  The setter of \<open>system_prompt\<close> (line 47): line 53 runs when \<open>warnings.warn\<close> has
  returned.
\<close>

definition system_prompt_setter ::
  "Messages \<Rightarrow> nat \<Rightarrow> string \<Rightarrow> py_state \<Rightarrow> (py_exn + unit) \<times> py_state" where
  "system_prompt_setter M self prompt s =
     (case warnings_warn (setter_warning M) s of
        (Inl e, s1) \<Rightarrow> (Inl e, s1)
      | (Inr u, s1) \<Rightarrow>
          (Inr (), s1\<lparr>heap := (heap s1)(self := (heap s1 self)\<lparr>own_system_prompt := Some prompt\<rparr>)\<rparr>))"

subsection \<open>The request\<close>

text \<open>\<open>_prepare_messages\<close> (line 112). The list is built by appending, as in the source.\<close>

definition prepare_messages ::
  "encoder \<Rightarrow> py_state \<Rightarrow> nat \<Rightarrow> string \<Rightarrow> bool \<Rightarrow> string \<Rightarrow> py_exn + message list" where
  "prepare_messages encode_image_to_base64 s self image_path maintain_format prior_page =
     (let messages = [\<lparr>role = ''system'', content = Text (self_system_prompt s self)\<rparr>];
          messages =
            (if maintain_format \<and> prior_page \<noteq> []
             then messages @
               [\<lparr>role = ''system'',
                 content = Text
                   (''Markdown must maintain consistent formatting with the following page: ''
                    @ [nl, nl] @ '' '' @ [dq, dq, dq] @ prior_page @ [dq, dq, dq])\<rparr>]
             else messages)
      in case encode_image_to_base64 image_path of
           Inl e \<Rightarrow> Inl e
         | Inr base64_image \<Rightarrow>
             Inr (messages @
               [\<lparr>role = ''user'',
                 content = Parts [Image_url (''data:image/png;base64,'' @ base64_image)]\<rparr>]))"

subsection \<open>The completion\<close>

text \<open>Sequencing of steps that may raise.\<close>

definition then_try :: "py_exn + 'a \<Rightarrow> ('a \<Rightarrow> py_exn + 'b) \<Rightarrow> py_exn + 'b" where
  "then_try r f = (case r of Inl e \<Rightarrow> Inl e | Inr x \<Rightarrow> f x)"

text \<open>\<open>d[k]\<close> for a key that the response may lack.\<close>

definition key :: "string \<Rightarrow> 'a option \<Rightarrow> py_exn + 'a" where
  "key k v = (case v of None \<Rightarrow> Inl (KeyError k) | Some x \<Rightarrow> Inr x)"

definition IndexError :: py_exn where
  "IndexError = \<lparr>exn_class = ''IndexError'', exn_is_Exception = True,
     exn_str = ''list index out of range''\<rparr>"

text \<open>\<open>xs[0]\<close>.\<close>

fun index0 :: "'a list \<Rightarrow> py_exn + 'a" where
  "index0 [] = Inl IndexError"
| "index0 (x # xs) = Inr x"

text \<open>\<open>response["choices"][0]["message"]\<close>.\<close>

definition first_message :: "provider_response \<Rightarrow> py_exn + response_message" where
  "first_message response =
     then_try (key ''choices'' (choices response)) (\<lambda>cs.
     then_try (index0 cs) (\<lambda>c.
     key ''message'' (choice_message c)))"

text \<open>
  Lines 101 to 106: the keyword arguments are evaluated in the order written, and
  \<open>.get("bounding_boxes", [])\<close> gives the empty list when the key is missing.
\<close>

definition read_response :: "provider_response \<Rightarrow> py_exn + CompletionResponse" where
  "read_response response =
     then_try (then_try (first_message response) (\<lambda>m. key ''content'' (message_content m))) (\<lambda>c.
     then_try (then_try (key ''usage'' (usage response)) (\<lambda>u. key ''prompt_tokens'' (prompt_tokens u))) (\<lambda>i.
     then_try (then_try (key ''usage'' (usage response)) (\<lambda>u. key ''completion_tokens'' (completion_tokens u))) (\<lambda>out.
     then_try (first_message response) (\<lambda>m.
     Inr \<lparr>response_content = c, input_tokens = i, output_tokens = out,
          bounding_boxes = (case message_bounding_boxes m of None \<Rightarrow> [] | Some bs \<Rightarrow> bs)\<rparr>))))"

text \<open>
  \<open>completion\<close> (line 74). The messages are prepared before the \<open>try\<close>; inside it the
  transport is called once and the response is read; \<open>except Exception\<close> catches what
  derives from \<open>Exception\<close> and raises \<open>Exception(Messages.COMPLETION_ERROR.format(err))\<close>.
\<close>

definition completion ::
  "Messages \<Rightarrow> encoder \<Rightarrow> transport \<Rightarrow> nat \<Rightarrow> string \<Rightarrow> bool \<Rightarrow> string \<Rightarrow> py_state
   \<Rightarrow> (py_exn + CompletionResponse) \<times> py_state" where
  "completion M encode_image_to_base64 acompletion self image_path maintain_format prior_page s =
     (case prepare_messages encode_image_to_base64 s self image_path maintain_format prior_page of
        Inl e \<Rightarrow> (Inl e, s)
      | Inr messages \<Rightarrow>
          (let obj = heap s self;
               s' = s\<lparr>transport_calls :=
                       transport_calls s @ [(model obj, messages, kwargs obj)]\<rparr>
           in case then_try (acompletion (model obj) messages (kwargs obj)) read_response of
                Inr response \<Rightarrow> (Inr response, s')
              | Inl err \<Rightarrow>
                  if exn_is_Exception err
                  then (Inl (Exception (str_format (COMPLETION_ERROR M) (exn_str err))), s')
                  else (Inl err, s')))"

section \<open>Notions used to state the properties\<close>

text \<open>
  The block that the spec describes for one box: an inline image reference built from
  the box's base64 data, a blank line, and the line that renders the coordinates.
\<close>

definition spec_box_block :: "box \<Rightarrow> string" where
  "spec_box_block b =
     ''![Image](data:image/png;base64,'' @ py_str (the (b ''image'')) @ '')'' @ [nl, nl]
     @ ''Bounding Box: '' @ py_str (the (b ''bounding_box''))"

text \<open>A box that has the two keys \<open>format_markdown\<close> reads.\<close>

definition has_keys :: "box \<Rightarrow> bool" where
  "has_keys b \<longleftrightarrow> b ''image'' \<noteq> None \<and> b ''bounding_box'' \<noteq> None"

text \<open>The continuity instruction for a prior page, as line 141 writes it.\<close>

definition continuity_instruction :: "string \<Rightarrow> message" where
  "continuity_instruction prior_page =
     \<lparr>role = ''system'',
      content = Text (''Markdown must maintain consistent formatting with the following page: ''
                      @ [nl, nl] @ '' '' @ [dq, dq, dq] @ prior_page @ [dq, dq, dq])\<rparr>"

text \<open>The user entry that carries the encoded page image, as lines 147 to 157 build it.\<close>

definition image_entry :: "string \<Rightarrow> message" where
  "image_entry base64_image =
     \<lparr>role = ''user'', content = Parts [Image_url (''data:image/png;base64,'' @ base64_image)]\<rparr>"

text \<open>The entries of a request whose role is \<open>system\<close>.\<close>

definition system_entries :: "message list \<Rightarrow> message list" where
  "system_entries ms = filter (\<lambda>m. role m = ''system'') ms"

text \<open>The entries of a request whose role is \<open>user\<close>.\<close>

definition user_entries :: "message list \<Rightarrow> message list" where
  "user_entries ms = filter (\<lambda>m. role m = ''user'') ms"


text \<open>The states in which the warning of line 52 is raised as an error.\<close>

definition raises :: "py_state \<Rightarrow> string \<Rightarrow> bool" where
  "raises s w \<longleftrightarrow> w \<notin> set (warnings_registry s) \<and> warnings_action s = Error_action"

text \<open>A concrete instance, state, encoder, message constants and transports, for the
  instances of the theorems below.\<close>

definition example_model :: litellmmodel where
  "example_model = \<lparr>model = ''gpt-4o-mini'', kwargs = [], own_system_prompt = None\<rparr>"

definition example_state :: py_state where
  "example_state = module_loaded (\<lambda>i. example_model)"


definition example_encoder :: encoder where
  "example_encoder image_path =
     (if image_path = ''page_1.png'' then Inr ''iVBORw0KGgo=''
      else Inl \<lparr>exn_class = ''FileNotFoundError'', exn_is_Exception = True,
                exn_str = ''[Errno 2] No such file or directory''\<rparr>)"

definition example_messages :: Messages where
  "example_messages =
     \<lparr>CUSTOM_SYSTEM_PROMPT_WARNING = ''Custom system prompt was provided'',
      COMPLETION_ERROR = [Lit ''Error in Completion Response. Error: '', Replacement]\<rparr>"

definition failing_transport :: transport where
  "failing_transport m ms kw =
     Inl \<lparr>exn_class = ''APIConnectionError'', exn_is_Exception = True,
          exn_str = ''Connection refused''\<rparr>"

definition usage_missing_transport :: transport where
  "usage_missing_transport m ms kw =
     Inr \<lparr>choices = Some [\<lparr>choice_message =
              Some \<lparr>message_content = Some ''Hello'', message_bounding_boxes = None\<rparr>\<rparr>],
          usage = None\<rparr>"

section \<open>Facts about the fence patterns\<close>



lemma re_sub_not_enclosed: "\<not> enclosed opening text \<Longrightarrow> re_sub_group1 opening text = text"
  by (simp add: re_sub_group1_def)



lemma enclosed_has_fence:
  assumes "enclosed opening text"
  shows "sublist ''```'' text"
proof -
  from assms have "drop (length text - length fence_close) text = fence_close"
    by (simp add: enclosed_def)
  then have "text = take (length text - length fence_close) text @ fence_close"
    by (metis append_take_drop_id)
  then have "text = (take (length text - length fence_close) text @ [nl]) @ ''```'' @ []"
    by (simp add: fence_close_def)
  then show ?thesis
    unfolding sublist_def by blast
qed

lemma format_markdown_no_boxes:
  "format_markdown text None = Inr (re_sub_group1 MATCH_CODE_BLOCKS (re_sub_group1 MATCH_MARKDOWN_BLOCKS text))"
  "format_markdown text (Some []) = Inr (re_sub_group1 MATCH_CODE_BLOCKS (re_sub_group1 MATCH_MARKDOWN_BLOCKS text))"
  by (simp_all add: format_markdown_def)



text \<open>
  C6. For a string that carries no fence wrapping (neither pattern matches it),
  normalising twice with an empty box list gives what normalising once gives.
\<close>

theorem format_markdown_idempotent_unfenced:
  assumes "\<not> enclosed MATCH_MARKDOWN_BLOCKS x" and "\<not> enclosed MATCH_CODE_BLOCKS x"
  shows "\<exists>y. format_markdown x (Some []) = Inr y
             \<and> format_markdown y (Some []) = format_markdown x (Some [])"
  using assms by (simp add: format_markdown_no_boxes re_sub_not_enclosed)

text \<open>
  C6 at a concrete string.
\<close>

theorem format_markdown_idempotent_unfenced_witness:
  "\<not> enclosed MATCH_MARKDOWN_BLOCKS ''# Title'' \<and> \<not> enclosed MATCH_CODE_BLOCKS ''# Title''
   \<and> (\<exists>y. format_markdown ''# Title'' (Some []) = Inr y
          \<and> format_markdown y (Some []) = format_markdown ''# Title'' (Some []))"
proof -
  have a: "\<not> enclosed MATCH_MARKDOWN_BLOCKS ''# Title''"
    by (simp add: enclosed_def MATCH_MARKDOWN_BLOCKS_def fence_close_def)
  have b: "\<not> enclosed MATCH_CODE_BLOCKS ''# Title''"
    by (simp add: enclosed_def MATCH_CODE_BLOCKS_def fence_close_def)
  from a b format_markdown_idempotent_unfenced [OF a b] show ?thesis by blast
qed


section \<open>The bounding-box blocks\<close>

lemma box_markdown_has_keys: "has_keys b \<Longrightarrow> box_markdown b = Inr (spec_box_block b)"
  by (auto simp add: has_keys_def box_markdown_def subscript_def spec_box_block_def)

lemma comprehension_has_keys:
  "list_all has_keys bs \<Longrightarrow> comprehension box_markdown bs = Inr (map spec_box_block bs)"
  by (induction bs) (simp_all add: box_markdown_has_keys)

lemma join_blocks:
  "bs \<noteq> [] \<Longrightarrow> sep @ join sep bs = concat (map (\<lambda>b. sep @ b) bs)"
  by (induction sep bs rule: join.induct) simp_all

lemma nat_digits_0: "nat_digits 0 = ''0''"
  by (simp add: nat_digits.simps)

lemma nat_digits_10: "nat_digits 10 = ''10''"
  by (simp add: nat_digits.simps)

lemma int_str_0: "int_str 0 = ''0''"
  by (simp add: int_str_def nat_digits_0)

lemma int_str_10: "int_str 10 = ''10''"
  by (simp add: int_str_def nat_digits_10)

lemma not_enclosed_body:
  "\<not> enclosed MATCH_MARKDOWN_BLOCKS ''body''" "\<not> enclosed MATCH_CODE_BLOCKS ''body''"
  by (simp_all add: enclosed_def MATCH_MARKDOWN_BLOCKS_def MATCH_CODE_BLOCKS_def fence_close_def)

lemma example_box_markdown:
  "box_markdown [''image'' \<mapsto> PStr ''AAAA'',
       ''bounding_box'' \<mapsto> PData (CList [CInt 0, CInt 0, CInt 10, CInt 10])]
   = Inr (''![Image](data:image/png;base64,AAAA)'' @ [nl, nl] @ ''Bounding Box: [0, 0, 10, 10]'')"
  by (simp add: box_markdown_def subscript_def int_str_0 int_str_10)

lemma example_format_markdown:
  "format_markdown ''body''
     (Some [[''image'' \<mapsto> PStr ''AAAA'',
             ''bounding_box'' \<mapsto> PData (CList [CInt 0, CInt 0, CInt 10, CInt 10])]])
   = Inr (''body'' @ [nl, nl] @ ''![Image](data:image/png;base64,AAAA)'' @ [nl, nl]
          @ ''Bounding Box: [0, 0, 10, 10]'')"
  by (simp add: format_markdown_def re_sub_not_enclosed not_enclosed_body example_box_markdown)

text \<open>
  C5, as stated, fails: the coordinate list of the example is rendered by the f-string
  the way Python renders a list, with a space after each comma, so the result is not
  the string of the claim.
\<close>

theorem bounding_box_example_counterexample:
  "format_markdown ''body''
     (Some [[''image'' \<mapsto> PStr ''AAAA'',
             ''bounding_box'' \<mapsto> PData (CList [CInt 0, CInt 0, CInt 10, CInt 10])]])
   \<noteq> Inr (''body'' @ [nl, nl] @ ''![Image](data:image/png;base64,AAAA)'' @ [nl, nl]
          @ ''Bounding Box: [0,0,10,10]'')"
  by (simp add: example_format_markdown)

text \<open>
  C5, amended. When the box list is non-empty and every box has its two keys, the
  result is the unwrapped content followed, for each box in order, by a blank line and
  the box's block (image reference, blank line, coordinate line). For the example box
  the result ends with the coordinates rendered as \<open>[0, 0, 10, 10]\<close>.
\<close>

theorem format_markdown_appends_box_blocks:
  assumes "boxes \<noteq> []" and "list_all has_keys boxes"
  shows "format_markdown text (Some boxes) =
           Inr (re_sub_group1 MATCH_CODE_BLOCKS (re_sub_group1 MATCH_MARKDOWN_BLOCKS text)
                @ concat (map (\<lambda>b. [nl, nl] @ spec_box_block b) boxes))
         \<and> format_markdown ''body''
             (Some [[''image'' \<mapsto> PStr ''AAAA'',
                     ''bounding_box'' \<mapsto> PData (CList [CInt 0, CInt 0, CInt 10, CInt 10])]])
           = Inr (''body'' @ [nl, nl] @ ''![Image](data:image/png;base64,AAAA)'' @ [nl, nl]
                  @ ''Bounding Box: [0, 0, 10, 10]'')"
proof
  from assms(1) obtain b bs where bs: "boxes = b # bs"
    by (cases boxes) auto
  have "[nl, nl] @ join [nl, nl] (map spec_box_block boxes)
        = concat (map (\<lambda>b. [nl, nl] @ b) (map spec_box_block boxes))"
    using assms(1) by (intro join_blocks) simp
  then have j: "[nl, nl] @ join [nl, nl] (map spec_box_block boxes)
        = concat (map (\<lambda>b. [nl, nl] @ spec_box_block b) boxes)"
    by (simp add: comp_def)
  have "format_markdown text (Some boxes) =
          Inr (re_sub_group1 MATCH_CODE_BLOCKS (re_sub_group1 MATCH_MARKDOWN_BLOCKS text)
               @ [nl, nl] @ join [nl, nl] (map spec_box_block boxes))"
    using comprehension_has_keys [OF assms(2)] unfolding bs
    by (simp add: format_markdown_def)
  then show "format_markdown text (Some boxes) =
           Inr (re_sub_group1 MATCH_CODE_BLOCKS (re_sub_group1 MATCH_MARKDOWN_BLOCKS text)
                @ concat (map (\<lambda>b. [nl, nl] @ spec_box_block b) boxes))"
    by (simp only: j)
next
  show "format_markdown ''body''
             (Some [[''image'' \<mapsto> PStr ''AAAA'',
                     ''bounding_box'' \<mapsto> PData (CList [CInt 0, CInt 0, CInt 10, CInt 10])]])
           = Inr (''body'' @ [nl, nl] @ ''![Image](data:image/png;base64,AAAA)'' @ [nl, nl]
                  @ ''Bounding Box: [0, 0, 10, 10]'')"
    by (rule example_format_markdown)
qed


text \<open>
  The amended C5 at a concrete box list.
\<close>

theorem format_markdown_appends_box_blocks_witness:
  "[[''image'' \<mapsto> PStr ''AAAA'', ''bounding_box'' \<mapsto> PData (CList [CInt 7])]] \<noteq> []
   \<and> list_all has_keys [[''image'' \<mapsto> PStr ''AAAA'', ''bounding_box'' \<mapsto> PData (CList [CInt 7])]]
   \<and> format_markdown ''body''
        (Some [[''image'' \<mapsto> PStr ''AAAA'', ''bounding_box'' \<mapsto> PData (CList [CInt 7])]])
      = Inr (''body'' @ [nl, nl] @ ''![Image](data:image/png;base64,AAAA)'' @ [nl, nl]
             @ ''Bounding Box: [7]'')"
proof -
  let ?b = "[''image'' \<mapsto> PStr ''AAAA'', ''bounding_box'' \<mapsto> PData (CList [CInt 7])]"
  have k: "list_all has_keys [?b]"
    by (simp add: has_keys_def)
  have n: "[?b] \<noteq> []"
    by simp
  have d: "int_str 7 = ''7''"
    by (simp add: int_str_def nat_digits.simps)
  have "format_markdown ''body'' (Some [?b]) =
          Inr (re_sub_group1 MATCH_CODE_BLOCKS (re_sub_group1 MATCH_MARKDOWN_BLOCKS ''body'')
               @ concat (map (\<lambda>b. [nl, nl] @ spec_box_block b) [?b]))"
    using format_markdown_appends_box_blocks [OF n k, of "''body''"] by (rule conjunct1)
  then have "format_markdown ''body'' (Some [?b])
      = Inr (''body'' @ [nl, nl] @ ''![Image](data:image/png;base64,AAAA)'' @ [nl, nl]
             @ ''Bounding Box: [7]'')"
    by (simp add: re_sub_not_enclosed not_enclosed_body spec_box_block_def d)
  with k n show ?thesis by blast
qed

section \<open>Totality\<close>

text \<open>
  C7. \<open>format_markdown\<close> is a function of its arguments that returns a result for every
  string, with no boxes, with an empty box list, and with any list of boxes that have
  their two keys. When the text holds no fence marker, each unwrap step leaves it as it
  is, and so does the whole function.
\<close>

theorem format_markdown_total:
  "(\<exists>r. format_markdown text None = Inr r)
   \<and> (\<exists>r. format_markdown text (Some []) = Inr r)
   \<and> (list_all has_keys boxes \<longrightarrow> (\<exists>r. format_markdown text (Some boxes) = Inr r))
   \<and> (\<not> sublist ''```'' text \<longrightarrow>
        re_sub_group1 MATCH_MARKDOWN_BLOCKS text = text
        \<and> re_sub_group1 MATCH_CODE_BLOCKS text = text
        \<and> format_markdown text None = Inr text
        \<and> format_markdown text (Some []) = Inr text)"
proof (intro conjI impI)
  show "\<exists>r. format_markdown text None = Inr r"
    by (simp add: format_markdown_no_boxes)
  show "\<exists>r. format_markdown text (Some []) = Inr r"
    by (simp add: format_markdown_no_boxes)
next
  assume "list_all has_keys boxes"
  then have "comprehension box_markdown boxes = Inr (map spec_box_block boxes)"
    by (rule comprehension_has_keys)
  then show "\<exists>r. format_markdown text (Some boxes) = Inr r"
    by (cases boxes) (simp_all add: format_markdown_def)
next
  assume nf: "\<not> sublist ''```'' text"
  then have m: "\<not> enclosed MATCH_MARKDOWN_BLOCKS text" and c: "\<not> enclosed MATCH_CODE_BLOCKS text"
    using enclosed_has_fence by blast+
  from m show 1: "re_sub_group1 MATCH_MARKDOWN_BLOCKS text = text"
    by (rule re_sub_not_enclosed)
  from c show 2: "re_sub_group1 MATCH_CODE_BLOCKS text = text"
    by (rule re_sub_not_enclosed)
  show "format_markdown text None = Inr text"
    by (simp add: format_markdown_no_boxes 1 2)
  show "format_markdown text (Some []) = Inr text"
    by (simp add: format_markdown_no_boxes 1 2)
qed

text \<open>
  C7 at a concrete string and box list.
\<close>

theorem format_markdown_total_witness:
  "list_all has_keys [[''image'' \<mapsto> PStr ''AAAA'', ''bounding_box'' \<mapsto> PStr ''b'']]
   \<and> (\<exists>r. format_markdown ''# Title''
             (Some [[''image'' \<mapsto> PStr ''AAAA'', ''bounding_box'' \<mapsto> PStr ''b'']]) = Inr r)
   \<and> \<not> sublist ''```'' ''# Title''
   \<and> format_markdown ''# Title'' None = Inr ''# Title''"
proof -
  let ?bs = "[[''image'' \<mapsto> PStr ''AAAA'', ''bounding_box'' \<mapsto> PStr ''b'']]"
  have k: "list_all has_keys ?bs"
    by (simp add: has_keys_def)
  have n: "\<not> sublist ''```'' ''# Title''"
    by (simp add: sublist_code(3))
  from k n format_markdown_total [of "''# Title''" ?bs] show ?thesis
    by blast
qed

section \<open>The request that is built\<close>

lemma prepare_messages_encoded:
  "enc image_path = Inr b \<Longrightarrow>
   prepare_messages enc s self image_path maintain_format prior_page =
     Inr (\<lparr>role = ''system'', content = Text (self_system_prompt s self)\<rparr>
          # (if maintain_format \<and> prior_page \<noteq> [] then [continuity_instruction prior_page] else [])
          @ [image_entry b])"
  by (simp add: prepare_messages_def continuity_instruction_def image_entry_def Let_def)

text \<open>
  C1. Whenever the image is encoded, \<open>_prepare_messages\<close> returns a message sequence
  whose first entry is the system entry with the active system prompt and whose last
  entry is the user entry carrying the page image; after the first entry there is one
  more system entry, the continuity instruction, exactly when \<open>maintain_format\<close> is true
  and \<open>prior_page\<close> is not empty, and none otherwise; the image entry is the only user
  entry; there are three entries in the first case and two in the second, all of them
  system or user entries.
\<close>

theorem prepare_messages_shape:
  assumes "enc image_path = Inr b"
  shows "\<exists>ms. prepare_messages enc s self image_path maintain_format prior_page = Inr ms
       \<and> hd ms = \<lparr>role = ''system'', content = Text (system_prompt s self)\<rparr>
       \<and> last ms = image_entry b
       \<and> (system_entries (tl ms) = [continuity_instruction prior_page]
            \<longleftrightarrow> maintain_format \<and> prior_page \<noteq> [])
       \<and> (system_entries (tl ms) = [] \<longleftrightarrow> \<not> (maintain_format \<and> prior_page \<noteq> []))
       \<and> user_entries ms = [image_entry b]
       \<and> length ms = (if maintain_format \<and> prior_page \<noteq> [] then 3 else 2)
       \<and> length ms = length (system_entries ms) + length (user_entries ms)"
proof (cases "maintain_format \<and> prior_page \<noteq> []")
  case True
  with assms prepare_messages_encoded [where enc = enc and image_path = image_path and b = b]
  have "prepare_messages enc s self image_path maintain_format prior_page =
      Inr [\<lparr>role = ''system'', content = Text (self_system_prompt s self)\<rparr>,
        continuity_instruction prior_page, image_entry b]"
    by simp
  with True show ?thesis
    by (simp add: system_prompt_def system_entries_def user_entries_def
        continuity_instruction_def image_entry_def)
next
  case False
  with assms prepare_messages_encoded [where enc = enc and image_path = image_path and b = b]
  have "prepare_messages enc s self image_path maintain_format prior_page =
      Inr [\<lparr>role = ''system'', content = Text (self_system_prompt s self)\<rparr>, image_entry b]"
    by simp
  with False show ?thesis
    by (simp add: system_prompt_def system_entries_def user_entries_def
        continuity_instruction_def image_entry_def)
qed

text \<open>
  C1 at a concrete call, for the second page of a document in continuity mode.
\<close>

theorem prepare_messages_shape_witness:
  "example_encoder ''page_1.png'' = Inr ''iVBORw0KGgo=''
   \<and> prepare_messages example_encoder example_state 0 ''page_1.png'' True ''# Page 0'' =
       Inr [\<lparr>role = ''system'', content = Text DEFAULT_SYSTEM_PROMPT\<rparr>,
            continuity_instruction ''# Page 0'',
            image_entry ''iVBORw0KGgo='']"
proof -
  have e: "example_encoder ''page_1.png'' = Inr ''iVBORw0KGgo=''"
    by (simp add: example_encoder_def)
  from e prepare_messages_shape [where enc = example_encoder and image_path = "''page_1.png''"
      and b = "''iVBORw0KGgo=''" and s = example_state and self = 0 and maintain_format = True
      and prior_page = "''# Page 0''"]
  obtain ms where
    ms: "prepare_messages example_encoder example_state 0 ''page_1.png'' True ''# Page 0'' = Inr ms"
    and h: "hd ms = \<lparr>role = ''system'', content = Text (system_prompt example_state 0)\<rparr>"
    and l: "last ms = image_entry ''iVBORw0KGgo=''"
    and c: "system_entries (tl ms) = [continuity_instruction ''# Page 0'']
            \<longleftrightarrow> True \<and> ''# Page 0'' \<noteq> []"
    and n: "length ms = (if True \<and> ''# Page 0'' \<noteq> [] then 3 else 2)"
    by blast
  from n obtain x y z where xyz: "ms = [x, y, z]"
    by (cases ms rule: list.exhaust; simp; rename_tac t; case_tac t; simp; rename_tac u; case_tac u; simp)
  have sp: "system_prompt example_state 0 = DEFAULT_SYSTEM_PROMPT"
    by (simp add: system_prompt_def self_system_prompt_def example_state_def module_loaded_def
        example_model_def)
  from h l c xyz sp have "x = \<lparr>role = ''system'', content = Text DEFAULT_SYSTEM_PROMPT\<rparr>"
    and "z = image_entry ''iVBORw0KGgo=''" and "y = continuity_instruction ''# Page 0''"
    by (simp_all add: system_entries_def image_entry_def split: if_splits)
  with ms xyz e show ?thesis by simp
qed

text \<open>
  C2. With \<open>maintain_format\<close> true and a non-empty \<open>prior_page\<close>, the second entry of the
  request is a system entry whose text is the instruction followed by the whole of
  \<open>prior_page\<close> between two triple double quotes, so the prior page occurs in it
  verbatim as a quoted block. With an empty \<open>prior_page\<close> the request is the system
  prompt and the image only.
\<close>

theorem continuity_instruction_verbatim:
  assumes "enc image_path = Inr b"
  shows "(maintain_format \<and> prior_page \<noteq> [] \<longrightarrow>
           (\<exists>first instruction.
              prepare_messages enc s self image_path maintain_format prior_page =
                Inr [first, \<lparr>role = ''system'', content = Text instruction\<rparr>, image_entry b]
              \<and> instruction =
                  ''Markdown must maintain consistent formatting with the following page: ''
                  @ [nl, nl] @ '' '' @ [dq, dq, dq] @ prior_page @ [dq, dq, dq]
              \<and> sublist ([dq, dq, dq] @ prior_page @ [dq, dq, dq]) instruction))
       \<and> (prior_page = [] \<longrightarrow>
           prepare_messages enc s self image_path maintain_format prior_page =
             Inr [\<lparr>role = ''system'', content = Text (system_prompt s self)\<rparr>, image_entry b])"
proof (intro conjI impI)
  assume c: "maintain_format \<and> prior_page \<noteq> []"
  let ?instruction = "''Markdown must maintain consistent formatting with the following page: ''
                  @ [nl, nl] @ '' '' @ [dq, dq, dq] @ prior_page @ [dq, dq, dq]"
  from c assms prepare_messages_encoded [where enc = enc and image_path = image_path and b = b]
  have "prepare_messages enc s self image_path maintain_format prior_page =
      Inr [\<lparr>role = ''system'', content = Text (self_system_prompt s self)\<rparr>,
           \<lparr>role = ''system'', content = Text ?instruction\<rparr>, image_entry b]"
    by (simp add: continuity_instruction_def)
  moreover have "sublist ([dq, dq, dq] @ prior_page @ [dq, dq, dq]) ?instruction"
    unfolding sublist_def
    by (intro exI [of _ "''Markdown must maintain consistent formatting with the following page: ''
                  @ [nl, nl] @ '' ''"] exI [of _ "[]"]) simp
  ultimately show "\<exists>first instruction.
              prepare_messages enc s self image_path maintain_format prior_page =
                Inr [first, \<lparr>role = ''system'', content = Text instruction\<rparr>, image_entry b]
              \<and> instruction = ?instruction
              \<and> sublist ([dq, dq, dq] @ prior_page @ [dq, dq, dq]) instruction"
    by blast
next
  assume "prior_page = []"
  with assms prepare_messages_encoded [where enc = enc and image_path = image_path and b = b]
  show "prepare_messages enc s self image_path maintain_format prior_page =
             Inr [\<lparr>role = ''system'', content = Text (system_prompt s self)\<rparr>, image_entry b]"
    by (simp add: system_prompt_def)
qed

text \<open>
  C2 at concrete calls: a second page in continuity mode, and a first page.
\<close>

theorem continuity_instruction_verbatim_witness:
  "example_encoder ''page_1.png'' = Inr ''iVBORw0KGgo=''
   \<and> prepare_messages example_encoder example_state 0 ''page_1.png'' True ''# Page 0'' =
       Inr [\<lparr>role = ''system'', content = Text DEFAULT_SYSTEM_PROMPT\<rparr>,
            \<lparr>role = ''system'',
             content = Text (''Markdown must maintain consistent formatting with the following page: ''
                  @ [nl, nl] @ '' '' @ [dq, dq, dq] @ ''# Page 0'' @ [dq, dq, dq])\<rparr>,
            image_entry ''iVBORw0KGgo='']
   \<and> prepare_messages example_encoder example_state 0 ''page_1.png'' True [] =
       Inr [\<lparr>role = ''system'', content = Text DEFAULT_SYSTEM_PROMPT\<rparr>,
            image_entry ''iVBORw0KGgo='']"
proof -
  have e: "example_encoder ''page_1.png'' = Inr ''iVBORw0KGgo=''"
    by (simp add: example_encoder_def)
  have sp: "system_prompt example_state 0 = DEFAULT_SYSTEM_PROMPT"
    by (simp add: system_prompt_def self_system_prompt_def example_state_def module_loaded_def
        example_model_def)
  note t = continuity_instruction_verbatim [where enc = example_encoder
      and image_path = "''page_1.png''" and b = "''iVBORw0KGgo=''" and s = example_state
      and self = 0 and maintain_format = True, OF e]
  from t [of "''# Page 0''"] obtain first where
    f: "prepare_messages example_encoder example_state 0 ''page_1.png'' True ''# Page 0'' =
       Inr [first, \<lparr>role = ''system'',
             content = Text (''Markdown must maintain consistent formatting with the following page: ''
                  @ [nl, nl] @ '' '' @ [dq, dq, dq] @ ''# Page 0'' @ [dq, dq, dq])\<rparr>,
            image_entry ''iVBORw0KGgo='']"
    by auto
  have "first = \<lparr>role = ''system'', content = Text DEFAULT_SYSTEM_PROMPT\<rparr>"
    using f e sp prepare_messages_encoded [where enc = example_encoder
        and image_path = "''page_1.png''" and b = "''iVBORw0KGgo=''" and s = example_state
        and self = 0 and maintain_format = True and prior_page = "''# Page 0''"]
    by (simp add: system_prompt_def)
  moreover from t [of "[]"] sp
  have "prepare_messages example_encoder example_state 0 ''page_1.png'' True [] =
       Inr [\<lparr>role = ''system'', content = Text DEFAULT_SYSTEM_PROMPT\<rparr>,
            image_entry ''iVBORw0KGgo='']"
    by simp
  ultimately show ?thesis using e f by simp
qed

section \<open>Failures of the completion\<close>

lemma str_format_embeds: "Replacement \<in> set tpl \<Longrightarrow> sublist arg (str_format tpl arg)"
proof (induction tpl)
  case Nil
  then show ?case by simp
next
  case (Cons p ps)
  show ?case
  proof (cases p)
    case (Lit t)
    with Cons have "sublist arg (str_format ps arg)" by simp
    then obtain u v where "str_format ps arg = u @ arg @ v"
      unfolding sublist_def by blast
    then have "str_format (p # ps) arg = (t @ u) @ arg @ v"
      using Lit by simp
    then show ?thesis
      unfolding sublist_def by blast
  next
    case Replacement
    then show ?thesis by simp
  qed
qed

lemma key_error: "key k v = Inl e \<Longrightarrow> exn_is_Exception e"
  by (auto simp add: key_def KeyError_def split: option.splits)

lemma index0_error: "index0 xs = Inl e \<Longrightarrow> exn_is_Exception e"
  by (cases xs) (auto simp add: IndexError_def)

lemma then_try_error:
  "then_try r f = Inl e \<Longrightarrow> r = Inl e \<or> (\<exists>x. r = Inr x \<and> f x = Inl e)"
  by (auto simp add: then_try_def split: sum.splits)

lemma first_message_error: "first_message r = Inl e \<Longrightarrow> exn_is_Exception e"
  unfolding first_message_def
  by (blast dest: then_try_error key_error index0_error)

lemma read_response_error: "read_response r = Inl e \<Longrightarrow> exn_is_Exception e"
  unfolding read_response_def
  by (blast dest: then_try_error key_error first_message_error)

lemma completion_prepared:
  assumes "prepare_messages enc s self image_path maintain_format prior_page = Inr messages"
  shows "snd (completion M enc acompletion self image_path maintain_format prior_page s) =
           s\<lparr>transport_calls := transport_calls s
                @ [(model (heap s self), messages, kwargs (heap s self))]\<rparr>"
  using assms by (simp add: completion_def Let_def split: sum.splits)

lemma completion_caught:
  assumes "prepare_messages enc s self image_path maintain_format prior_page = Inr messages"
    and "then_try (acompletion (model (heap s self)) messages (kwargs (heap s self)))
           read_response = Inl err"
    and "exn_is_Exception err"
  shows "fst (completion M enc acompletion self image_path maintain_format prior_page s) =
           Inl (Exception (str_format (COMPLETION_ERROR M) (exn_str err)))"
  using assms by (simp add: completion_def Let_def)

text \<open>
  C3. Once the messages are prepared, a failure of the transport call that derives from
  \<open>Exception\<close>, or a failure while the response is read, makes \<open>completion\<close> raise
  \<open>Exception\<close> with \<open>COMPLETION_ERROR\<close> formatted with the cause; when the template has
  a replacement field, the cause's description occurs in the message. The transport has
  been called exactly once.
\<close>

theorem completion_wraps_failure:
  assumes prepared:
      "prepare_messages enc s self image_path maintain_format prior_page = Inr messages"
    and failure:
      "(acompletion (model (heap s self)) messages (kwargs (heap s self)) = Inl err
          \<and> exn_is_Exception err)
       \<or> (\<exists>response.
             acompletion (model (heap s self)) messages (kwargs (heap s self)) = Inr response
             \<and> read_response response = Inl err)"
    and placeholder: "Replacement \<in> set (COMPLETION_ERROR M)"
  shows "\<exists>msg.
           fst (completion M enc acompletion self image_path maintain_format prior_page s) =
             Inl (Exception msg)
           \<and> msg = str_format (COMPLETION_ERROR M) (exn_str err)
           \<and> sublist (exn_str err) msg
           \<and> transport_calls
               (snd (completion M enc acompletion self image_path maintain_format prior_page s)) =
             transport_calls s @ [(model (heap s self), messages, kwargs (heap s self))]"
proof -
  from failure have
    f: "then_try (acompletion (model (heap s self)) messages (kwargs (heap s self)))
          read_response = Inl err"
    by (auto simp add: then_try_def)
  from failure have e: "exn_is_Exception err"
    by (auto dest: read_response_error)
  have "fst (completion M enc acompletion self image_path maintain_format prior_page s) =
          Inl (Exception (str_format (COMPLETION_ERROR M) (exn_str err)))"
    using prepared f e by (rule completion_caught)
  moreover have "sublist (exn_str err) (str_format (COMPLETION_ERROR M) (exn_str err))"
    using placeholder by (rule str_format_embeds)
  moreover have "transport_calls
      (snd (completion M enc acompletion self image_path maintain_format prior_page s)) =
      transport_calls s @ [(model (heap s self), messages, kwargs (heap s self))]"
    by (simp add: completion_prepared [OF prepared])
  ultimately show ?thesis by blast
qed

text \<open>
  C3 at two concrete failures: a transport that cannot connect, and a response that
  has no usage block.
\<close>

theorem completion_wraps_failure_witness:
  "fst (completion example_messages example_encoder failing_transport 0 ''page_1.png'' False []
          example_state) =
     Inl (Exception ''Error in Completion Response. Error: Connection refused'')
   \<and> length (transport_calls
        (snd (completion example_messages example_encoder failing_transport 0 ''page_1.png''
                False [] example_state))) = 1
   \<and> fst (completion example_messages example_encoder usage_missing_transport 0 ''page_1.png''
          False [] example_state) =
     Inl (Exception (''Error in Completion Response. Error: '' @ [sq] @ ''usage'' @ [sq]))"
proof -
  let ?ms = "[\<lparr>role = ''system'', content = Text (system_prompt example_state 0)\<rparr>,
              image_entry ''iVBORw0KGgo='']"
  let ?err = "\<lparr>exn_class = ''APIConnectionError'', exn_is_Exception = True,
          exn_str = ''Connection refused''\<rparr>"
  have p: "prepare_messages example_encoder example_state 0 ''page_1.png'' False [] = Inr ?ms"
    by (simp add: prepare_messages_def example_encoder_def image_entry_def system_prompt_def)
  have f: "(failing_transport (model (heap example_state 0)) ?ms (kwargs (heap example_state 0))
              = Inl ?err \<and> exn_is_Exception ?err)
       \<or> (\<exists>response.
             failing_transport (model (heap example_state 0)) ?ms (kwargs (heap example_state 0))
               = Inr response
             \<and> read_response response = Inl ?err)"
    by (simp add: failing_transport_def)
  have r: "read_response
             \<lparr>choices = Some [\<lparr>choice_message =
                 Some \<lparr>message_content = Some ''Hello'', message_bounding_boxes = None\<rparr>\<rparr>],
              usage = None\<rparr> = Inl (KeyError ''usage'')"
    by (simp add: read_response_def first_message_def then_try_def key_def)
  have g: "(usage_missing_transport (model (heap example_state 0)) ?ms
              (kwargs (heap example_state 0)) = Inl (KeyError ''usage'')
            \<and> exn_is_Exception (KeyError ''usage''))
       \<or> (\<exists>response.
             usage_missing_transport (model (heap example_state 0)) ?ms
               (kwargs (heap example_state 0)) = Inr response
             \<and> read_response response = Inl (KeyError ''usage''))"
    using r by (simp add: usage_missing_transport_def)
  have h: "Replacement \<in> set (COMPLETION_ERROR example_messages)"
    by (simp add: example_messages_def)
  have t: "transport_calls example_state = []"
    by (simp add: example_state_def module_loaded_def)
  from p f h t completion_wraps_failure [where enc = example_encoder and s = example_state
      and self = 0 and image_path = "''page_1.png''" and maintain_format = False
      and prior_page = "[]" and messages = ?ms and acompletion = failing_transport
      and err = ?err and M = example_messages]
  have 1: "fst (completion example_messages example_encoder failing_transport 0 ''page_1.png''
          False [] example_state) =
     Inl (Exception ''Error in Completion Response. Error: Connection refused'')
   \<and> length (transport_calls
        (snd (completion example_messages example_encoder failing_transport 0 ''page_1.png''
                False [] example_state))) = 1"
    by (auto simp add: example_messages_def)
  from p g h completion_wraps_failure [where enc = example_encoder and s = example_state
      and self = 0 and image_path = "''page_1.png''" and maintain_format = False
      and prior_page = "[]" and messages = ?ms and acompletion = usage_missing_transport
      and err = "KeyError ''usage''" and M = example_messages]
  have 2: "fst (completion example_messages example_encoder usage_missing_transport 0
          ''page_1.png'' False [] example_state) =
     Inl (Exception (''Error in Completion Response. Error: '' @ [sq] @ ''usage'' @ [sq]))"
    by (auto simp add: example_messages_def KeyError_def)
  from 1 2 show ?thesis by blast
qed

text \<open>
  C8. When the encoder raises, \<open>completion\<close> raises the same exception, whatever its
  class, and the state is unchanged: the transport has not been called.
\<close>

theorem encoding_error_propagates:
  assumes "enc image_path = Inl e"
  shows "completion M enc acompletion self image_path maintain_format prior_page s = (Inl e, s)"
  using assms by (simp add: completion_def prepare_messages_def Let_def)

text \<open>
  C8 at a concrete call with an image that does not exist.
\<close>

theorem encoding_error_propagates_witness:
  "example_encoder ''missing.png'' =
     Inl \<lparr>exn_class = ''FileNotFoundError'', exn_is_Exception = True,
          exn_str = ''[Errno 2] No such file or directory''\<rparr>
   \<and> completion example_messages example_encoder failing_transport 0 ''missing.png'' True
       ''# Page 0'' example_state =
     (Inl \<lparr>exn_class = ''FileNotFoundError'', exn_is_Exception = True,
           exn_str = ''[Errno 2] No such file or directory''\<rparr>, example_state)"
proof -
  have e: "example_encoder ''missing.png'' =
     Inl \<lparr>exn_class = ''FileNotFoundError'', exn_is_Exception = True,
          exn_str = ''[Errno 2] No such file or directory''\<rparr>"
    by (simp add: example_encoder_def)
  from e encoding_error_propagates [where enc = example_encoder
      and image_path = "''missing.png''"]
  show ?thesis by simp
qed

section \<open>Overriding the system prompt\<close>

lemma warn_result:
  "fst (warnings_warn w s) = (if raises s w then Inl (UserWarning w) else Inr ())"
  by (simp add: warnings_warn_def raises_def Let_def split: warn_action.splits)


lemma warn_frame:
  "heap (snd (warnings_warn w s)) = heap s"
  "class_system_prompt (snd (warnings_warn w s)) = class_system_prompt s"
  by (simp_all add: warnings_warn_def showwarning_def Let_def split: warn_action.splits)


lemma setter_unfold:
  "system_prompt_setter M self prompt s =
     (case fst (warnings_warn (setter_warning M) s) of
        Inl e \<Rightarrow> (Inl e, snd (warnings_warn (setter_warning M) s))
      | Inr u \<Rightarrow>
          (Inr (), (snd (warnings_warn (setter_warning M) s))
             \<lparr>heap := (heap s)(self := (heap s self)\<lparr>own_system_prompt := Some prompt\<rparr>)\<rparr>))"
proof -
  obtain r s1 where w: "warnings_warn (setter_warning M) s = (r, s1)"
    by (cases "warnings_warn (setter_warning M) s")
  from warn_frame(1) [of "setter_warning M" s] w have h: "heap s1 = heap s"
    by simp
  from w h show ?thesis
    by (cases r) (simp_all add: system_prompt_setter_def)
qed

lemma setter_result:
  "fst (system_prompt_setter M self prompt s) =
     (if raises s (setter_warning M) then Inl (UserWarning (setter_warning M)) else Inr ())"
  by (simp add: setter_unfold warn_result)



lemma setter_own:
  "\<not> raises s (setter_warning M) \<Longrightarrow>
   own_system_prompt (heap (snd (system_prompt_setter M self prompt s)) self) = Some prompt"
  by (simp add: setter_unfold warn_result)

lemma setter_other:
  "other \<noteq> self \<Longrightarrow> heap (snd (system_prompt_setter M self prompt s)) other = heap s other"
  by (simp add: setter_unfold warn_frame split: sum.splits)

lemma setter_class:
  "class_system_prompt (snd (system_prompt_setter M self prompt s)) = class_system_prompt s"
  by (simp add: setter_unfold warn_frame split: sum.splits)


lemma example_state_fields:
  "warnings_action example_state = Default_action"
  "warnings_registry example_state = []"
  "warnings_shown example_state = []"
  "class_system_prompt example_state = DEFAULT_SYSTEM_PROMPT"
  "heap example_state i = example_model"
  by (simp_all add: example_state_def module_loaded_def)





text \<open>
  C10. Whatever \<open>warnings.warn\<close> does, the setter leaves the class attribute as it is,
  and every other instance is unchanged and observes the same system prompt as before,
  the class default when it has no attribute of its own. When the setter returns, it
  has written the attribute of the instance it was called on.
\<close>

theorem setter_is_per_instance:
  assumes "other \<noteq> self"
  shows "class_system_prompt (snd (system_prompt_setter M self prompt s)) = class_system_prompt s
       \<and> (fst (system_prompt_setter M self prompt s) = Inr () \<longrightarrow>
            own_system_prompt (heap (snd (system_prompt_setter M self prompt s)) self)
              = Some prompt)
       \<and> heap (snd (system_prompt_setter M self prompt s)) other = heap s other
       \<and> system_prompt (snd (system_prompt_setter M self prompt s)) other
           = system_prompt s other
       \<and> (own_system_prompt (heap s other) = None \<longrightarrow>
            system_prompt (snd (system_prompt_setter M self prompt s)) other
              = class_system_prompt s)"
proof -
  have "fst (system_prompt_setter M self prompt s) = Inr () \<longrightarrow>
            own_system_prompt (heap (snd (system_prompt_setter M self prompt s)) self)
              = Some prompt"
    by (simp add: setter_result setter_own split: if_splits)
  with assms show ?thesis
    by (simp add: system_prompt_def self_system_prompt_def setter_class setter_other
        split: option.splits)
qed

text \<open>
  C10 at two concrete instances: after an override on the first, the second still
  observes the default prompt.
\<close>

theorem setter_is_per_instance_witness:
  "(1::nat) \<noteq> 0
   \<and> fst (system_prompt_setter example_messages 0 ''Transcribe.'' example_state) = Inr ()
   \<and> class_system_prompt
       (snd (system_prompt_setter example_messages 0 ''Transcribe.'' example_state))
       = DEFAULT_SYSTEM_PROMPT
   \<and> system_prompt (snd (system_prompt_setter example_messages 0 ''Transcribe.'' example_state)) 0
       = ''Transcribe.''
   \<and> system_prompt (snd (system_prompt_setter example_messages 0 ''Transcribe.'' example_state)) 1
       = DEFAULT_SYSTEM_PROMPT"
proof -
  have n: "(1::nat) \<noteq> 0" by simp
  have c: "class_system_prompt example_state = DEFAULT_SYSTEM_PROMPT"
    by (rule example_state_fields)
  have o: "own_system_prompt (heap example_state 1) = None"
    by (simp add: example_state_fields example_model_def)
  have r: "fst (system_prompt_setter example_messages 0 ''Transcribe.'' example_state) = Inr ()"
    by (simp add: setter_result raises_def example_state_fields)
  from setter_is_per_instance [OF n, of example_messages "''Transcribe.''" example_state] c o r
  show ?thesis
    by (simp add: system_prompt_def self_system_prompt_def)
qed

end
